theory Spec2Isabelle
  imports Complex_Main "HOL-Library.Char_ord" "HOL-Library.List_Lexorder"
    "HOL-Library.Product_Lexorder"
begin

section \<open>The weather ingestion pipeline: a shallow embedding\<close>

text \<open>
  The theory embeds the four core parts of the pipeline: the field extractor and the
  retrying fetch of \<^verbatim>\<open>api_client.py\<close>, the display methods of
  \<^verbatim>\<open>models.py\<close>, the partitioned writer of \<^verbatim>\<open>storage.py\<close> and the
  per-city loop of \<^verbatim>\<open>main.py\<close>. Python exceptions are values of \<open>py_error\<close>;
  a function that can raise returns \<open>py_error + 'a\<close>. Python's unbounded integers are
  \<open>int\<close>; its floats are modelled by exact rationals (\<open>rat\<close>).
\<close>

subsection \<open>Python values and errors\<close>

text \<open>
  The exceptions the embedded code can raise. \<open>RuntimeError\<close> and \<open>ValueError\<close>
  carry their message.
\<close>

datatype py_error =
    TypeError
  | AttributeError
  | ValidationError
  | OverflowError
  | ValueError string
  | RuntimeError string

text \<open>A path segment handed to \<^verbatim>\<open>get_field\<close>: a dictionary key or a list index.\<close>

datatype key = KStr string | KInt int

text \<open>
  A parsed response: \<^verbatim>\<open>None\<close>, booleans, integers, floats, strings, lists and
  dictionaries. A dictionary is an association list looked up with \<open>map_of\<close>.
\<close>

datatype pyval =
    PNone
  | PBool bool
  | PInt int
  | PFloat rat
  | PStr string
  | PList "pyval list"
  | PDict "(key \<times> pyval) list"

subsection \<open>The field extractor (\<^verbatim>\<open>OpenWeatherClient.get_field\<close>)\<close>

text \<open>
  \<^verbatim>\<open>
  for key in keys:
      if isinstance(d, dict) and key in d:
          d = d[key]
      elif isinstance(d, list) and isinstance(key, int) and 0 <= key < len(d):
          d = d[key]
      else:
          return default
  return d
  \<close>
\<close>

fun get_field :: "pyval \<Rightarrow> key list \<Rightarrow> pyval \<Rightarrow> pyval" where
  "get_field d [] dflt = d"
| "get_field d (k # ks) dflt =
     (case d of
        PDict kvs \<Rightarrow>
          (case map_of kvs k of
             Some v \<Rightarrow> get_field v ks dflt
           | None \<Rightarrow> dflt)
      | PList xs \<Rightarrow>
          (case k of
             KInt i \<Rightarrow>
               (if 0 \<le> i \<and> i < int (length xs) then get_field (xs ! nat i) ks dflt
                else dflt)
           | KStr s \<Rightarrow> dflt)
      | _ \<Rightarrow> dflt)"

text \<open>
  The extractor as the specification words it: one step of descent, defined only through
  a mapping that contains the key or a sequence with the key as an in-range index, and a
  walk that stops at the first segment with no descent.
\<close>

fun descend :: "pyval \<Rightarrow> key \<Rightarrow> pyval option" where
  "descend (PDict kvs) k = map_of kvs k"
| "descend (PList xs) (KInt i) = (if 0 \<le> i \<and> i < int (length xs) then Some (xs ! nat i) else None)"
| "descend _ _ = None"

fun walk :: "pyval \<Rightarrow> key list \<Rightarrow> pyval option" where
  "walk d [] = Some d"
| "walk d (k # ks) = (case descend d k of None \<Rightarrow> None | Some v \<Rightarrow> walk v ks)"

definition spec_extract :: "pyval \<Rightarrow> key list \<Rightarrow> pyval \<Rightarrow> pyval" where
  "spec_extract d path dflt = (case walk d path of None \<Rightarrow> dflt | Some v \<Rightarrow> v)"

subsection \<open>Decimal text of integers\<close>

text \<open>What an f-string or \<^verbatim>\<open>str\<close> prints for an integer.\<close>

definition digit_char :: "nat \<Rightarrow> char" where
  "digit_char d = ''0123456789'' ! d"

fun str_nat :: "nat \<Rightarrow> string" where
  "str_nat n = (if n < 10 then [digit_char n] else str_nat (n div 10) @ [digit_char (n mod 10)])"

declare str_nat.simps [simp del]

definition str_int :: "int \<Rightarrow> string" where
  "str_int i = (if i < 0 then ''-'' @ str_nat (nat (- i)) else str_nat (nat i))"

subsection \<open>The record (\<^verbatim>\<open>models.py\<close>)\<close>

text \<open>A \<^verbatim>\<open>datetime\<close> value, to the second.\<close>

record datetime =
  year :: nat
  month :: nat
  day :: nat
  hour :: nat
  minute :: nat
  second :: nat

text \<open>\<^verbatim>\<open>class WeatherRecord(BaseModel)\<close>: every field is \<^verbatim>\<open>Optional\<close>.\<close>

record WeatherRecord =
  city :: "string option"
  country :: "string option"
  timestamp :: "datetime option"
  timezone_offset :: "int option"
  weather :: "string option"
  weather_description :: "string option"
  temperature_min :: "rat option"
  temperature_max :: "rat option"
  temperature_current :: "rat option"
  temperature_feels_like :: "rat option"
  cloudiness :: "int option"
  wind_speed :: "rat option"
  wind_direction_deg :: "int option"
  humidity :: "int option"
  pressure :: "int option"
  sunrise :: "datetime option"
  sunset :: "datetime option"
  units :: "string option"

text \<open>
  \<^verbatim>\<open>
  def timezone_str(self) -> str:
      hours = self.timezone_offset // 3600
      if hours == 0:
          return "UTC"
      sign = "+" if hours > 0 else "-"
      return f"UTC{sign}{abs(hours)}"
  \<close>
  Python's \<^verbatim>\<open>//\<close> on integers is floor division, which is \<open>div\<close> on \<open>int\<close>.
  On \<^verbatim>\<open>None\<close> the division raises \<^verbatim>\<open>TypeError\<close>.
\<close>

definition timezone_str :: "WeatherRecord \<Rightarrow> py_error + string" where
  "timezone_str r =
     (case timezone_offset r of
        None \<Rightarrow> Inl TypeError
      | Some off \<Rightarrow>
          (let hours = off div 3600
           in if hours = 0 then Inr ''UTC''
              else let sign = (if hours > 0 then ''+'' else ''-'')
                   in Inr (''UTC'' @ sign @ str_int (abs hours))))"

text \<open>
  Python's \<^verbatim>\<open>round\<close> of a float to an integer: to the nearest integer, a tie
  going to the even neighbour.
\<close>

definition py_round :: "rat \<Rightarrow> int" where
  "py_round x =
     (let f = \<lfloor>x\<rfloor>; r = x - of_int f
      in if r < 1 / 2 then f
         else if 1 / 2 < r then f + 1
         else if even f then f else f + 1)"

text \<open>
  \<^verbatim>\<open>
  dirs = ["North", "North-Northeast", ..., "North-Northwest"]
  ix = round(self.wind_direction_deg / 22.5) % 16
  return dirs[ix]
  \<close>
  \<open>compass_of_degrees\<close> is the body of the method on the number held by the field. The
  field is declared \<^verbatim>\<open>Optional[int]\<close>, and the body computes on any number, which
  is how a direction such as 22.5 is read. Python's \<^verbatim>\<open>%\<close> with a positive modulus is
  \<open>mod\<close> on \<open>int\<close>. On \<^verbatim>\<open>None\<close> the division raises \<^verbatim>\<open>TypeError\<close>.
\<close>

definition dirs :: "string list" where
  "dirs =
     [''North'', ''North-Northeast'', ''Northeast'', ''East-Northeast'',
      ''East'', ''East-Southeast'', ''Southeast'', ''South-Southeast'',
      ''South'', ''South-Southwest'', ''Southwest'', ''West-Southwest'',
      ''West'', ''West-Northwest'', ''Northwest'', ''North-Northwest'']"

definition compass_of_degrees :: "rat \<Rightarrow> string" where
  "compass_of_degrees deg = (let ix = py_round (deg / 22.5) mod 16 in dirs ! nat ix)"

definition wind_direction_compass :: "WeatherRecord \<Rightarrow> py_error + string" where
  "wind_direction_compass r =
     (case wind_direction_deg r of
        None \<Rightarrow> Inl TypeError
      | Some deg \<Rightarrow> Inr (compass_of_degrees (of_int deg)))"

subsection \<open>The fetch client (\<^verbatim>\<open>OpenWeatherClient.fetch_weather\<close>)\<close>

text \<open>
  The exceptions of the \<^verbatim>\<open>requests\<close> library that one attempt can end in, all
  subclasses of \<^verbatim>\<open>RequestException\<close>. \<^verbatim>\<open>requests.get\<close> itself raises the first
  three; \<open>HTTPError\<close> comes from \<^verbatim>\<open>raise_for_status\<close> and \<open>JSONDecodeError\<close> from
  \<^verbatim>\<open>response.json()\<close>.
\<close>

datatype request_exception =
    Timeout
  | DnsFailure
  | ConnectionFailure
  | HTTPError int
  | JSONDecodeError

text \<open>
  What the network does on one call of \<^verbatim>\<open>requests.get\<close>: it raises, or it returns a
  response with a status code and a body, which is \<open>Some\<close> value when it parses as JSON.
\<close>

datatype http_outcome =
    Raises request_exception
  | Response int "pyval option"

text \<open>
  The client's configuration. The field \<^verbatim>\<open>units\<close> of the source is \<open>client_units\<close>
  here, since the record of \<^verbatim>\<open>models.py\<close> has a field of the same name.
\<close>

record OpenWeatherClient =
  base_url :: string
  api_key :: string
  client_units :: string
  timeout :: int
  max_retries :: int
  backoff_seconds :: int

text \<open>
  The effects of a fetch, in the order they happen: the GET request (URL, query
  parameters, timeout), the warning logged for a failed attempt (attempt number, attempt
  limit, query, exception) and the call of \<^verbatim>\<open>time.sleep\<close>.
\<close>

datatype event =
    HttpGet string "(string \<times> string) list" int
  | LogWarning int int string request_exception
  | Sleep int

text \<open>
  The body of the \<^verbatim>\<open>try\<close> block on the outcome of the request:
  \<^verbatim>\<open>raise_for_status\<close> raises \<^verbatim>\<open>HTTPError\<close> for a status from 400 to 599 (the
  source's comment: "Raises HTTPError for 4xx/5xx") and for no other status; then
  \<^verbatim>\<open>response.json()\<close> returns the parsed body or raises.
\<close>

definition attempt_once :: "http_outcome \<Rightarrow> request_exception + pyval" where
  "attempt_once out =
     (case out of
        Raises e \<Rightarrow> Inl e
      | Response status body \<Rightarrow>
          if 400 \<le> status \<and> status < 600 then Inl (HTTPError status)
          else (case body of None \<Rightarrow> Inl JSONDecodeError | Some j \<Rightarrow> Inr j))"

text \<open>
  \<^verbatim>\<open>
  for attempt in range(1, self.max_retries + 1):
      try:
          response = requests.get(self.base_url, params=params, timeout=self.timeout)
          response.raise_for_status()
          return response.json()
      except requests.RequestException as e:
          self.logger.warning(f"Attempt {attempt}/{self.max_retries} failed for {query}: {e}")
          if attempt < self.max_retries:
              time.sleep(self.backoff_seconds)
  raise RuntimeError(f"Failed to fetch data for {query}")
  \<close>
  The loop runs over the list of attempt numbers; \<open>net k\<close> is the outcome of the request
  of attempt \<open>k\<close>. \<^verbatim>\<open>time.sleep\<close> raises \<^verbatim>\<open>ValueError\<close> on a negative duration,
  which leaves the handler and the function.
\<close>

fun fetch_loop ::
  "OpenWeatherClient \<Rightarrow> (int \<Rightarrow> http_outcome) \<Rightarrow> string \<Rightarrow> int list
     \<Rightarrow> (py_error + pyval) \<times> event list" where
  "fetch_loop c net query [] = (Inl (RuntimeError (''Failed to fetch data for '' @ query)), [])"
| "fetch_loop c net query (attempt # rest) =
     (let get = HttpGet (base_url c)
                  [(''q'', query), (''appid'', api_key c), (''units'', client_units c)] (timeout c)
      in case attempt_once (net attempt) of
           Inr body \<Rightarrow> (Inr body, [get])
         | Inl e \<Rightarrow>
             (let warn = LogWarning attempt (max_retries c) query e
              in if attempt < max_retries c then
                   (if backoff_seconds c < 0
                    then (Inl (ValueError ''sleep length must be non-negative''), [get, warn])
                    else (case fetch_loop c net query rest of
                            (res, evs) \<Rightarrow> (res, get # warn # Sleep (backoff_seconds c) # evs)))
                 else (case fetch_loop c net query rest of
                         (res, evs) \<Rightarrow> (res, get # warn # evs))))"

definition fetch_weather ::
  "OpenWeatherClient \<Rightarrow> (int \<Rightarrow> http_outcome) \<Rightarrow> string \<Rightarrow> string
     \<Rightarrow> (py_error + pyval) \<times> event list" where
  "fetch_weather c net cty ctry =
     (let query = cty @ '','' @ ctry
      in fetch_loop c net query [1..max_retries c])"

text \<open>Reading a trace: the number of requests made, and the durations slept, in order.\<close>

fun is_attempt :: "event \<Rightarrow> bool" where
  "is_attempt (HttpGet u ps t) = True"
| "is_attempt _ = False"

fun is_sleep :: "event \<Rightarrow> bool" where
  "is_sleep (Sleep d) = True"
| "is_sleep _ = False"

definition attempts :: "event list \<Rightarrow> nat" where
  "attempts evs = length (filter is_attempt evs)"

fun sleeps :: "event list \<Rightarrow> int list" where
  "sleeps [] = []"
| "sleeps (Sleep d # evs) = d # sleeps evs"
| "sleeps (_ # evs) = sleeps evs"

text \<open>
  A failed attempt as the specification lists it: a failure of the network, or a
  response whose status is not 2xx.
\<close>

definition claimed_failure :: "http_outcome \<Rightarrow> bool" where
  "claimed_failure out =
     (case out of
        Raises e \<Rightarrow> True
      | Response status body \<Rightarrow> \<not> (200 \<le> status \<and> status < 300))"

text \<open>
  A failed attempt as the source has it: a failure of the network, a response with a
  4xx or 5xx status, or a response whose body is not JSON.
\<close>

definition retryable_failure :: "http_outcome \<Rightarrow> bool" where
  "retryable_failure out =
     (case out of
        Raises e \<Rightarrow> True
      | Response status body \<Rightarrow> (400 \<le> status \<and> status < 600) \<or> body = None)"

subsection \<open>Formatting a record (\<^verbatim>\<open>WeatherRecord.formatted_record\<close>)\<close>

text \<open>
  \<^verbatim>\<open>strftime\<close> prints a field of a \<^verbatim>\<open>datetime\<close> with leading zeros: two digits
  for day, month, hour, minute and second, four for the year (which is at most 9999).
\<close>

definition pad2 :: "nat \<Rightarrow> string" where
  "pad2 n = [digit_char (n div 10 mod 10), digit_char (n mod 10)]"

definition pad4 :: "nat \<Rightarrow> string" where
  "pad4 n =
     [digit_char (n div 1000 mod 10), digit_char (n div 100 mod 10),
      digit_char (n div 10 mod 10), digit_char (n mod 10)]"

text \<open>
  \<^verbatim>\<open>
  def format_datetime(self, dt: datetime) -> str:
      return dt.strftime("%d-%m-%Y %H:%M:%S")
  \<close>
  The method is called on an \<^verbatim>\<open>Optional[datetime]\<close> field; on \<^verbatim>\<open>None\<close> the
  attribute access \<^verbatim>\<open>dt.strftime\<close> raises \<^verbatim>\<open>AttributeError\<close>.
\<close>

definition strftime_display :: "datetime \<Rightarrow> string" where
  "strftime_display dt =
     pad2 (day dt) @ ''-'' @ pad2 (month dt) @ ''-'' @ pad4 (year dt) @ '' ''
       @ pad2 (hour dt) @ '':'' @ pad2 (minute dt) @ '':'' @ pad2 (second dt)"

definition format_datetime :: "datetime option \<Rightarrow> py_error + string" where
  "format_datetime dt = (case dt of None \<Rightarrow> Inl AttributeError | Some t \<Rightarrow> Inr (strftime_display t))"

text \<open>
  The local \<^verbatim>\<open>unit\<close> of \<^verbatim>\<open>field_with_units\<close>. The method returns
  \<^verbatim>\<open>f"{value} {unit}"\<close>, and \<^verbatim>\<open>formatted_record\<close> keeps only
  \<^verbatim>\<open>.split()[-1]\<close> of it: the text after the last blank, which is the unit, since no
  unit of the temperature and wind speed fields is empty or holds a blank. The degree
  sign is the two bytes of its UTF-8 encoding.
\<close>

definition degree_sign :: string where
  "degree_sign = [char_of (0xC2 :: nat), char_of (0xB0 :: nat)]"

definition field_unit :: "WeatherRecord \<Rightarrow> string \<Rightarrow> string" where
  "field_unit r field_name =
     (if field_name \<in> {''temperature_current'', ''temperature_min'', ''temperature_max'',
                         ''temperature_feels_like''} then
        (if units r = Some ''metric'' then degree_sign @ ''C''
         else if units r = Some ''imperial'' then degree_sign @ ''F''
         else ''K'')
      else if field_name = ''wind_speed'' then
        (if units r = Some ''metric'' \<or> units r = Some ''default'' then ''m/s'' else ''mph'')
      else if field_name = ''humidity'' \<or> field_name = ''cloudiness'' then ''%''
      else if field_name = ''pressure'' then ''hPa''
      else '''')"

text \<open>A cell of a row: \<^verbatim>\<open>None\<close>, a string, an integer or a float.\<close>

datatype cell = CNone | CStr string | CInt int | CFloat rat

definition str_cell :: "string option \<Rightarrow> cell" where
  "str_cell v = (case v of None \<Rightarrow> CNone | Some s \<Rightarrow> CStr s)"

definition int_cell :: "int option \<Rightarrow> cell" where
  "int_cell v = (case v of None \<Rightarrow> CNone | Some i \<Rightarrow> CInt i)"

definition float_cell :: "rat option \<Rightarrow> cell" where
  "float_cell v = (case v of None \<Rightarrow> CNone | Some x \<Rightarrow> CFloat x)"

text \<open>A row: the dictionary from column label to cell, in the order of its keys.\<close>

type_synonym row = "(string \<times> cell) list"

text \<open>
  \<^verbatim>\<open>
  return {
      "City": self.city,
      "Country": self.country,
      "Timestamp": self.format_datetime(self.timestamp),
      "Timezone": self.timezone_str(),
      "Weather": self.weather,
      "Weather_Description": self.weather_description,
      "Cloudiness_(%)": self.cloudiness,
      f"Temperature_Current_({...})": self.temperature_current,
      f"Temperature_Min_({...})": self.temperature_min,
      f"Temperature_Max_({...})": self.temperature_max,
      f"Temperature_Feels_Like_({...})": self.temperature_feels_like,
      f"Wind_Speed_({...})": self.wind_speed,
      "Wind_Direction": self.wind_direction_compass(),
      "Humidity_(%)": self.humidity,
      "Pressure_(hPa)": self.pressure,
      "Sunrise": self.format_datetime(self.sunrise),
      "Sunset": self.format_datetime(self.sunset),
  }
  \<close>
  The entries are evaluated in order, so the first method that raises decides the error.
\<close>

definition formatted_record :: "WeatherRecord \<Rightarrow> py_error + row" where
  "formatted_record r =
     (case format_datetime (timestamp r) of Inl e \<Rightarrow> Inl e | Inr ts \<Rightarrow>
      case timezone_str r of Inl e \<Rightarrow> Inl e | Inr tz \<Rightarrow>
      case wind_direction_compass r of Inl e \<Rightarrow> Inl e | Inr wd \<Rightarrow>
      case format_datetime (sunrise r) of Inl e \<Rightarrow> Inl e | Inr sr \<Rightarrow>
      case format_datetime (sunset r) of Inl e \<Rightarrow> Inl e | Inr ss \<Rightarrow>
        Inr [(''City'', str_cell (city r)),
             (''Country'', str_cell (country r)),
             (''Timestamp'', CStr ts),
             (''Timezone'', CStr tz),
             (''Weather'', str_cell (weather r)),
             (''Weather_Description'', str_cell (weather_description r)),
             (''Cloudiness_(%)'', int_cell (cloudiness r)),
             (''Temperature_Current_('' @ field_unit r ''temperature_current'' @ '')'',
                float_cell (temperature_current r)),
             (''Temperature_Min_('' @ field_unit r ''temperature_min'' @ '')'',
                float_cell (temperature_min r)),
             (''Temperature_Max_('' @ field_unit r ''temperature_max'' @ '')'',
                float_cell (temperature_max r)),
             (''Temperature_Feels_Like_('' @ field_unit r ''temperature_feels_like'' @ '')'',
                float_cell (temperature_feels_like r)),
             (''Wind_Speed_('' @ field_unit r ''wind_speed'' @ '')'', float_cell (wind_speed r)),
             (''Wind_Direction'', CStr wd),
             (''Humidity_(%)'', int_cell (humidity r)),
             (''Pressure_(hPa)'', int_cell (pressure r)),
             (''Sunrise'', CStr sr),
             (''Sunset'', CStr ss)])"

text \<open>
  \<^verbatim>\<open>data = [r.formatted_record() for r in records]\<close>: the rows in order, or the
  first error raised.
\<close>

fun format_all :: "WeatherRecord list \<Rightarrow> py_error + row list" where
  "format_all [] = Inr []"
| "format_all (r # rs) =
     (case formatted_record r of
        Inl e \<Rightarrow> Inl e
      | Inr x \<Rightarrow> (case format_all rs of Inl e \<Rightarrow> Inl e | Inr xs \<Rightarrow> Inr (x # xs)))"

subsection \<open>Parsing the display timestamp (\<^verbatim>\<open>pd.to_datetime\<close>)\<close>

text \<open>
  \<^verbatim>\<open>pd.to_datetime(df["Timestamp"], format="%d-%m-%Y %H:%M:%S", errors="coerce")\<close>
  reads a text of the form \<^verbatim>\<open>dd-mm-YYYY HH:MM:SS\<close>. With \<^verbatim>\<open>errors="coerce"\<close> a
  text that does not parse, names no date of the calendar, or names an instant outside
  the range of a nanosecond timestamp (1677-09-21 00:12:44 to 2262-04-11 23:47:16) becomes
  \<^verbatim>\<open>NaT\<close>, which is \<open>None\<close> here. Only texts printed by \<open>strftime_display\<close> reach
  the parser.
\<close>

definition digit_val :: "char \<Rightarrow> nat option" where
  "digit_val c =
     (let n = (of_char c :: nat) in if 48 \<le> n \<and> n \<le> 57 then Some (n - 48) else None)"

fun num_of :: "string \<Rightarrow> nat \<Rightarrow> nat option" where
  "num_of [] acc = Some acc"
| "num_of (c # cs) acc =
     (case digit_val c of None \<Rightarrow> None | Some d \<Rightarrow> num_of cs (10 * acc + d))"

definition leap_year :: "nat \<Rightarrow> bool" where
  "leap_year y = (y mod 4 = 0 \<and> (y mod 100 \<noteq> 0 \<or> y mod 400 = 0))"

definition days_in_month :: "nat \<Rightarrow> nat \<Rightarrow> nat" where
  "days_in_month y m =
     (if m = 2 then (if leap_year y then 29 else 28)
      else if m \<in> {4, 6, 9, 11} then 30
      else 31)"

text \<open>The values a \<^verbatim>\<open>datetime\<close> object can hold.\<close>

definition valid_datetime :: "datetime \<Rightarrow> bool" where
  "valid_datetime t =
     (1 \<le> year t \<and> year t \<le> 9999 \<and> 1 \<le> month t \<and> month t \<le> 12
      \<and> 1 \<le> day t \<and> day t \<le> days_in_month (year t) (month t)
      \<and> hour t < 24 \<and> minute t < 60 \<and> second t < 60)"

definition in_timestamp_range :: "datetime \<Rightarrow> bool" where
  "in_timestamp_range t =
     ((1677, 9, 21, 0, 12, 44) \<le> (year t, month t, day t, hour t, minute t, second t)
      \<and> (year t, month t, day t, hour t, minute t, second t) \<le> (2262, 4, 11, 23, 47, 16))"

definition to_datetime :: "string \<Rightarrow> datetime option" where
  "to_datetime s =
     (if length s = 19 \<and> s ! 2 = CHR ''-'' \<and> s ! 5 = CHR ''-'' \<and> s ! 10 = CHR '' ''
         \<and> s ! 13 = CHR '':'' \<and> s ! 16 = CHR '':'' then
        (case (num_of (take 2 s) 0, num_of (take 2 (drop 3 s)) 0, num_of (take 4 (drop 6 s)) 0,
               num_of (take 2 (drop 11 s)) 0, num_of (take 2 (drop 14 s)) 0,
               num_of (take 2 (drop 17 s)) 0) of
           (Some d, Some m, Some y, Some h, Some mi, Some se) \<Rightarrow>
             (let t = \<lparr>year = y, month = m, day = d, hour = h, minute = mi, second = se\<rparr>
              in if valid_datetime t \<and> in_timestamp_range t then Some t else None)
         | _ \<Rightarrow> None)
      else None)"

text \<open>
  \<^verbatim>\<open>
  df["_ts"] = pd.to_datetime(df["Timestamp"], ...)
  df = df.dropna(subset=["_ts"])
  \<close>
  The frame after the two lines is the list of the rows whose timestamp parsed, each with
  its \<^verbatim>\<open>_ts\<close>. A frame is modelled by the list of its rows, each with its own labels:
  the alignment of the rows on the union of their columns (which changes a row only when
  the records of one batch carry different unit systems) is left out.
\<close>

definition row_ts :: "row \<Rightarrow> datetime option" where
  "row_ts x = (case map_of x ''Timestamp'' of Some (CStr s) \<Rightarrow> to_datetime s | _ \<Rightarrow> None)"

definition with_ts :: "row list \<Rightarrow> (datetime \<times> row) list" where
  "with_ts data = List.map_filter (\<lambda>x. case row_ts x of None \<Rightarrow> None | Some t \<Rightarrow> Some (t, x)) data"

subsection \<open>Paths (\<^verbatim>\<open>pathlib.Path\<close>)\<close>

text \<open>
  A path is its list of parts, with a flag for an absolute path. The text of a path is
  cut at every slash; empty parts and parts \<^verbatim>\<open>.\<close> are dropped, as \<^verbatim>\<open>pathlib\<close>
  does. Joining a path with a text that starts with a slash gives the path of that text
  alone.
\<close>

fun split_slash :: "string \<Rightarrow> string list" where
  "split_slash [] = [[]]"
| "split_slash (c # cs) =
     (if c = CHR ''/'' then [] # split_slash cs
      else (case split_slash cs of [] \<Rightarrow> [[c]] | p # ps \<Rightarrow> (c # p) # ps))"

definition path_parts :: "string \<Rightarrow> string list" where
  "path_parts s = filter (\<lambda>p. p \<noteq> [] \<and> p \<noteq> ''.'') (split_slash s)"

type_synonym path = "bool \<times> string list"

definition Path :: "string \<Rightarrow> path" where
  "Path s = (s \<noteq> [] \<and> hd s = CHR ''/'', path_parts s)"

definition joinpath :: "path \<Rightarrow> string \<Rightarrow> path" where
  "joinpath p s = (if s \<noteq> [] \<and> hd s = CHR ''/'' then Path s else (fst p, snd p @ path_parts s))"

subsection \<open>Grouping (\<^verbatim>\<open>DataFrame.groupby\<close>)\<close>

text \<open>
  \<^verbatim>\<open>df.groupby(key)\<close> yields one group for each value of the key, in ascending
  order of the keys, each group holding its rows in the order of the frame. A row whose
  key is missing (\<^verbatim>\<open>None\<close>) belongs to no group.
\<close>

definition groupby :: "('r \<Rightarrow> 'k::linorder option) \<Rightarrow> 'r list \<Rightarrow> ('k \<times> 'r list) list" where
  "groupby key rows =
     map (\<lambda>k. (k, filter (\<lambda>x. key x = Some k) rows)) (sort (remdups (List.map_filter key rows)))"

type_synonym date = "nat \<times> nat \<times> nat"

definition date_of :: "datetime \<Rightarrow> date" where
  "date_of t = (year t, month t, day t)"

definition column_str :: "string \<Rightarrow> (datetime \<times> row) \<Rightarrow> string option" where
  "column_str label x = (case map_of (snd x) label of Some (CStr s) \<Rightarrow> Some s | _ \<Rightarrow> None)"

subsection \<open>The partitioned writer (\<^verbatim>\<open>storage.py\<close>)\<close>

record Storage =
  base_path :: path
  fmt :: string
  layout :: string

text \<open>\<^verbatim>\<open>str.lower\<close> on the letters of ASCII.\<close>

definition lower_char :: "char \<Rightarrow> char" where
  "lower_char c =
     (let n = (of_char c :: nat) in if 65 \<le> n \<and> n \<le> 90 then char_of (n + 32) else c)"

definition Storage_init :: "string \<Rightarrow> string \<Rightarrow> string \<Rightarrow> Storage" where
  "Storage_init base f l = \<lparr>base_path = Path base, fmt = map lower_char f, layout = map lower_char l\<rparr>"

text \<open>
  The effects of a write on the file system, in the order they are requested:
  \<^verbatim>\<open>path.mkdir(parents=True, exist_ok=True)\<close>, and the writing of a frame to a file in
  a format. Failures of the operating system (no permission, a file where a directory is
  needed, a full disk) are outside the model.
\<close>

datatype fs_event =
    Mkdir path
  | Save string path "row list"

text \<open>
  \<^verbatim>\<open>
  def _save(self, df, filepath):
      if self.fmt == "parquet": df.to_parquet(filepath, index=False)
      elif self.fmt == "csv":   df.to_csv(filepath, index=False)
      elif self.fmt == "json":  df.to_json(filepath, orient="records", lines=True)
      else: raise ValueError(f"Unsupported format: {self.fmt}")
  \<close>
\<close>

definition save :: "Storage \<Rightarrow> row list \<Rightarrow> path \<Rightarrow> py_error + fs_event" where
  "save st rows filepath =
     (if fmt st = ''parquet'' then Inr (Save ''parquet'' filepath rows)
      else if fmt st = ''csv'' then Inr (Save ''csv'' filepath rows)
      else if fmt st = ''json'' then Inr (Save ''json'' filepath rows)
      else Inl (ValueError (''Unsupported format: '' @ fmt st)))"

text \<open>
  The body shared by the five loops of \<^verbatim>\<open>write\<close>, on the list of (directory, file
  name, rows) the loop runs over: create the directory, then save the rows. An error ends
  the loop; what was done before it stays done.
\<close>

fun write_groups ::
  "Storage \<Rightarrow> (string \<times> string \<times> row list) list \<Rightarrow> (py_error + unit) \<times> fs_event list" where
  "write_groups st [] = (Inr (), [])"
| "write_groups st ((dir, filename, rows) # rest) =
     (let path = joinpath (base_path st) dir
      in case save st rows (joinpath path filename) of
           Inl e \<Rightarrow> (Inl e, [Mkdir path])
         | Inr ev \<Rightarrow>
             (case write_groups st rest of (res, evs) \<Rightarrow> (res, Mkdir path # ev # evs)))"

text \<open>\<^verbatim>\<open>strftime('%Y%m%d_%H%M%S')\<close> of the time of the call.\<close>

definition strftime_run :: "datetime \<Rightarrow> string" where
  "strftime_run t =
     pad4 (year t) @ pad2 (month t) @ pad2 (day t) @ ''_''
       @ pad2 (hour t) @ pad2 (minute t) @ pad2 (second t)"

definition date_dir :: "date \<Rightarrow> string" where
  "date_dir d =
     (case d of (y, m, dd) \<Rightarrow>
        ''year='' @ str_nat y @ ''/month='' @ str_nat m @ ''/day='' @ str_nat dd)"

text \<open>
  What an f-string prints for the cell of a column built from an
  \<^verbatim>\<open>Optional[str]\<close> field: the string, or \<^verbatim>\<open>None\<close>.
\<close>

definition column_text :: "string \<Rightarrow> row \<Rightarrow> string" where
  "column_text label x = (case map_of x label of Some (CStr s) \<Rightarrow> s | _ \<Rightarrow> ''None'')"

text \<open>
  The five branches of \<^verbatim>\<open>write\<close>: for the configured layout, the list the loop
  of the branch runs over, each element with the text of its directory (relative to the
  base path), the name of its file and its rows. \<open>None\<close> is the final \<^verbatim>\<open>else\<close>.
  \<^verbatim>\<open>
  if self.layout == "date":
      for date, group in df.groupby(df["_ts"].dt.date):
          path = self.base_path / f"year={date.year}/month={date.month}/day={date.day}"
          filename = f"weather_{run_ts}.{self.fmt}"
  elif self.layout == "date_country":
      for (date, country), group in df.groupby([df["_ts"].dt.date, "Country"]):
          path = self.base_path / f"year={date.year}/month={date.month}/day={date.day}"
          filename = f"{country}_weather_{run_ts}.{self.fmt}"
  elif self.layout == "country_date":
      for (country, date), group in df.groupby([df["Country"], df["_ts"].dt.date]):
          path = self.base_path / f"{country}/year={date.year}/month={date.month}/day={date.day}"
          filename = f"weather_{run_ts}.{self.fmt}"
  elif self.layout == "hive_compact":
      for _, row in df.iterrows():
          ts = row["_ts"]; city = row["City"]; country = row["Country"]
          path = self.base_path / f"year={ts.year}/month={ts.month}/day={ts.day}/{country}/{city}"
          filename = f"{country}_{city}_{run_ts}.{self.fmt}"
  elif self.layout == "city_date":
      for (city, date), group in df.groupby([df["City"], df["_ts"].dt.date]):
          path = self.base_path / f"{city}/year={date.year}/month={date.month}/day={date.day}"
          filename = f"weather_{run_ts}.{self.fmt}"
  else:
      raise ValueError(f"Unsupported layout: {self.layout}")
  \<close>
\<close>

definition layout_groups ::
  "Storage \<Rightarrow> string \<Rightarrow> (datetime \<times> row) list \<Rightarrow> (string \<times> string \<times> row list) list option" where
  "layout_groups st run_ts df =
     (if layout st = ''date'' then
        Some (map (\<lambda>(d, group).
                     (date_dir d, ''weather_'' @ run_ts @ ''.'' @ fmt st, map snd group))
                (groupby (\<lambda>x. Some (date_of (fst x))) df))
      else if layout st = ''date_country'' then
        Some (map (\<lambda>((d, ctry), group).
                     (date_dir d, ctry @ ''_weather_'' @ run_ts @ ''.'' @ fmt st, map snd group))
                (groupby (\<lambda>x. case column_str ''Country'' x of
                                 None \<Rightarrow> None | Some c \<Rightarrow> Some (date_of (fst x), c)) df))
      else if layout st = ''country_date'' then
        Some (map (\<lambda>((ctry, d), group).
                     (ctry @ ''/'' @ date_dir d, ''weather_'' @ run_ts @ ''.'' @ fmt st,
                      map snd group))
                (groupby (\<lambda>x. case column_str ''Country'' x of
                                 None \<Rightarrow> None | Some c \<Rightarrow> Some (c, date_of (fst x))) df))
      else if layout st = ''hive_compact'' then
        Some (map (\<lambda>(ts, x).
                     (let cty = column_text ''City'' x; ctry = column_text ''Country'' x
                      in (date_dir (date_of ts) @ ''/'' @ ctry @ ''/'' @ cty,
                          ctry @ ''_'' @ cty @ ''_'' @ run_ts @ ''.'' @ fmt st,
                          [x])))
                df)
      else if layout st = ''city_date'' then
        Some (map (\<lambda>((cty, d), group).
                     (cty @ ''/'' @ date_dir d, ''weather_'' @ run_ts @ ''.'' @ fmt st,
                      map snd group))
                (groupby (\<lambda>x. case column_str ''City'' x of
                                 None \<Rightarrow> None | Some c \<Rightarrow> Some (c, date_of (fst x))) df))
      else None)"

text \<open>
  \<^verbatim>\<open>Storage.write\<close> (the name alone is a keyword of the prover). \<open>now\<close> is the
  clock read by \<^verbatim>\<open>datetime.now(timezone.utc)\<close>. The result is the error raised, if
  any, with the effects on the file system up to it.
  \<^verbatim>\<open>
  if not records:
      return
  data = [r.formatted_record() for r in records]
  df = pd.DataFrame(data)
  df["_ts"] = pd.to_datetime(df["Timestamp"], format="%d-%m-%Y %H:%M:%S", errors="coerce")
  df = df.dropna(subset=["_ts"])
  run_ts = datetime.now(timezone.utc).strftime('%Y%m%d_%H%M%S')
  ... the branches on self.layout ...
  \<close>
\<close>

definition storage_write ::
  "Storage \<Rightarrow> datetime \<Rightarrow> WeatherRecord list \<Rightarrow> (py_error + unit) \<times> fs_event list" where
  "storage_write st now records =
     (if records = [] then (Inr (), [])
      else
        (case format_all records of
           Inl e \<Rightarrow> (Inl e, [])
         | Inr data \<Rightarrow>
             (let df = with_ts data;
                  run_ts = strftime_run now
              in case layout_groups st run_ts df of
                   None \<Rightarrow> (Inl (ValueError (''Unsupported layout: '' @ layout st)), [])
                 | Some groups \<Rightarrow> write_groups st groups)))"

text \<open>The format tags of \<^verbatim>\<open>_save\<close> and the layout tags of \<^verbatim>\<open>write\<close>.\<close>

definition supported_format :: "Storage \<Rightarrow> bool" where
  "supported_format st = (fmt st = ''parquet'' \<or> fmt st = ''csv'' \<or> fmt st = ''json'')"

definition supported_layout :: "Storage \<Rightarrow> bool" where
  "supported_layout st =
     (layout st = ''date'' \<or> layout st = ''date_country'' \<or> layout st = ''country_date''
      \<or> layout st = ''hive_compact'' \<or> layout st = ''city_date'')"

text \<open>
  The file system after a list of effects: the directories created, and the content of
  the file at a path, which is the content of the last save to it.
\<close>

fun created_dirs :: "fs_event list \<Rightarrow> path list" where
  "created_dirs [] = []"
| "created_dirs (Mkdir p # evs) = p # created_dirs evs"
| "created_dirs (Save f p rows # evs) = created_dirs evs"

fun saved :: "fs_event list \<Rightarrow> (path \<times> string \<times> row list) list" where
  "saved [] = []"
| "saved (Mkdir p # evs) = saved evs"
| "saved (Save f p rows # evs) = (p, f, rows) # saved evs"

definition file_at :: "fs_event list \<Rightarrow> path \<Rightarrow> (string \<times> row list) option" where
  "file_at evs p = map_of (rev (saved evs)) p"

subsection \<open>The ingestion loop (\<^verbatim>\<open>main.py\<close>)\<close>

text \<open>
  \<^verbatim>\<open>datetime.fromtimestamp(x, tz=timezone.utc)\<close>. The date of a day number (days
  since 1970-01-01) is computed in the proleptic Gregorian calendar, by eras of 400
  years.
\<close>

definition civil_from_days :: "int \<Rightarrow> int \<times> int \<times> int" where
  "civil_from_days days =
     (let z = days + 719468;
          era = z div 146097;
          doe = z - era * 146097;
          yoe = (doe - doe div 1460 + doe div 36524 - doe div 146096) div 365;
          doy = doe - (365 * yoe + yoe div 4 - yoe div 100);
          mp = (5 * doy + 2) div 153;
          d = doy - (153 * mp + 2) div 5 + 1;
          m = (if mp < 10 then mp + 3 else mp - 9);
          y = yoe + era * 400 + (if m \<le> 2 then 1 else 0)
      in (y, m, d))"

definition utc_of_epoch :: "int \<Rightarrow> py_error + datetime" where
  "utc_of_epoch n =
     (case civil_from_days (n div 86400) of (y, m, d) \<Rightarrow>
        (let s = n mod 86400
         in if 1 \<le> y \<and> y \<le> 9999 then
              Inr \<lparr>year = nat y, month = nat m, day = nat d,
                   hour = nat (s div 3600), minute = nat (s mod 3600 div 60),
                   second = nat (s mod 60)\<rparr>
            else Inl (ValueError ''year is out of range'')))"

text \<open>
  The argument must be a number: \<^verbatim>\<open>None\<close>, a string, a list or a dictionary raise
  \<^verbatim>\<open>TypeError\<close>. A float is rounded to the microsecond; the value is kept to the
  second.
\<close>

definition fromtimestamp :: "pyval \<Rightarrow> py_error + datetime" where
  "fromtimestamp v =
     (case v of
        PInt n \<Rightarrow> utc_of_epoch n
      | PBool b \<Rightarrow> utc_of_epoch (if b then 1 else 0)
      | PFloat x \<Rightarrow> utc_of_epoch (py_round (x * 1000000) div 1000000)
      | _ \<Rightarrow> Inl TypeError)"

text \<open>
  The validation that \<^verbatim>\<open>pydantic\<close> runs on the arguments of the constructor, one
  function for each of the three field types \<^verbatim>\<open>Optional[int]\<close>,
  \<^verbatim>\<open>Optional[float]\<close> and \<^verbatim>\<open>Optional[str]\<close>. Which mistyped values the library
  converts and which it rejects depends on its version, so the three functions are
  parameters of the loop.
\<close>

record pydantic =
  validate_int :: "pyval \<Rightarrow> py_error + int option"
  validate_float :: "pyval \<Rightarrow> py_error + rat option"
  validate_str :: "pyval \<Rightarrow> py_error + string option"

text \<open>
  One instance: \<^verbatim>\<open>None\<close> and values of the declared type are kept, an integer is a
  float, everything else is rejected.
\<close>

definition typed_pydantic :: pydantic where
  "typed_pydantic =
     \<lparr>validate_int = (\<lambda>v. case v of PNone \<Rightarrow> Inr None | PInt i \<Rightarrow> Inr (Some i)
                              | _ \<Rightarrow> Inl ValidationError),
      validate_float = (\<lambda>v. case v of PNone \<Rightarrow> Inr None | PInt i \<Rightarrow> Inr (Some (of_int i))
                                | PFloat x \<Rightarrow> Inr (Some x) | _ \<Rightarrow> Inl ValidationError),
      validate_str = (\<lambda>v. case v of PNone \<Rightarrow> Inr None | PStr s \<Rightarrow> Inr (Some s)
                              | _ \<Rightarrow> Inl ValidationError)\<rparr>"

text \<open>
  \<^verbatim>\<open>
  record = WeatherRecord(
      city = city_name,
      country = country_code,
      timestamp = datetime.fromtimestamp(client.get_field(raw, "dt", default=None), tz=timezone.utc),
      timezone_offset = client.get_field(raw, "timezone", default=None),
      weather = client.get_field(raw, "weather", 0, "main", default=None),
      weather_description = client.get_field(raw, "weather", 0, "description", default=None),
      temperature_min = client.get_field(raw, "main", "temp_min", default=None),
      temperature_max = client.get_field(raw, "main", "temp_max", default=None),
      temperature_current = client.get_field(raw, "main", "temp", default=None),
      temperature_feels_like = client.get_field(raw, "main", "feels_like", default=None),
      cloudiness = client.get_field(raw, "clouds", "all", default=None),
      wind_speed = client.get_field(raw, "wind", "speed", default=None),
      wind_direction_deg = client.get_field(raw, "wind", "deg", default=None),
      humidity = client.get_field(raw, "main", "humidity", default=None),
      pressure = client.get_field(raw, "main", "pressure", default=None),
      sunrise = datetime.fromtimestamp(client.get_field(raw, "sys", "sunrise", default=None), tz=timezone.utc),
      sunset = datetime.fromtimestamp(client.get_field(raw, "sys", "sunset", default=None), tz=timezone.utc),
      units = client.units
  )
  \<close>
  The arguments are evaluated in order, and the constructor validates them once all are
  evaluated, so the three calls of \<^verbatim>\<open>fromtimestamp\<close> come before the validation
  of the fields. \<open>and_then\<close> passes a value on and stops at the first error.
\<close>

definition and_then :: "py_error + 'a \<Rightarrow> ('a \<Rightarrow> py_error + 'b) \<Rightarrow> py_error + 'b" where
  "and_then m f = (case m of Inl e \<Rightarrow> Inl e | Inr x \<Rightarrow> f x)"

definition build_record ::
  "pydantic \<Rightarrow> OpenWeatherClient \<Rightarrow> string \<Rightarrow> string \<Rightarrow> pyval \<Rightarrow> py_error + WeatherRecord" where
  "build_record pyd c city_name country_code raw =
     and_then (fromtimestamp (get_field raw [KStr ''dt''] PNone)) (\<lambda>ts.
     and_then (fromtimestamp (get_field raw [KStr ''sys'', KStr ''sunrise''] PNone)) (\<lambda>sr.
     and_then (fromtimestamp (get_field raw [KStr ''sys'', KStr ''sunset''] PNone)) (\<lambda>ss.
     and_then (validate_int pyd (get_field raw [KStr ''timezone''] PNone)) (\<lambda>tz.
     and_then (validate_str pyd (get_field raw [KStr ''weather'', KInt 0, KStr ''main''] PNone)) (\<lambda>w.
     and_then (validate_str pyd
                 (get_field raw [KStr ''weather'', KInt 0, KStr ''description''] PNone)) (\<lambda>wd.
     and_then (validate_float pyd (get_field raw [KStr ''main'', KStr ''temp_min''] PNone)) (\<lambda>tmin.
     and_then (validate_float pyd (get_field raw [KStr ''main'', KStr ''temp_max''] PNone)) (\<lambda>tmax.
     and_then (validate_float pyd (get_field raw [KStr ''main'', KStr ''temp''] PNone)) (\<lambda>tcur.
     and_then (validate_float pyd (get_field raw [KStr ''main'', KStr ''feels_like''] PNone)) (\<lambda>tfeel.
     and_then (validate_int pyd (get_field raw [KStr ''clouds'', KStr ''all''] PNone)) (\<lambda>cl.
     and_then (validate_float pyd (get_field raw [KStr ''wind'', KStr ''speed''] PNone)) (\<lambda>ws.
     and_then (validate_int pyd (get_field raw [KStr ''wind'', KStr ''deg''] PNone)) (\<lambda>wdeg.
     and_then (validate_int pyd (get_field raw [KStr ''main'', KStr ''humidity''] PNone)) (\<lambda>hum.
     and_then (validate_int pyd (get_field raw [KStr ''main'', KStr ''pressure''] PNone)) (\<lambda>pr.
       Inr \<lparr>city = Some city_name, country = Some country_code, timestamp = Some ts,
            timezone_offset = tz, weather = w, weather_description = wd,
            temperature_min = tmin, temperature_max = tmax, temperature_current = tcur,
            temperature_feels_like = tfeel, cloudiness = cl, wind_speed = ws,
            wind_direction_deg = wdeg, humidity = hum, pressure = pr,
            sunrise = Some sr, sunset = Some ss, units = Some (client_units c)\<rparr>)))))))))))))))"

text \<open>\<^verbatim>\<open>str.upper\<close> on the letters of ASCII.\<close>

definition upper_char :: "char \<Rightarrow> char" where
  "upper_char c =
     (let n = (of_char c :: nat) in if 97 \<le> n \<and> n \<le> 122 then char_of (n - 32) else c)"

text \<open>
  The counters and lists of the loop. The list \<^verbatim>\<open>records\<close> of the source is
  \<open>run_records\<close> here.
\<close>

record run =
  success_count :: nat
  failed_cities_count :: nat
  failed_cities :: "string list"
  run_records :: "WeatherRecord list"

text \<open>
  \<^verbatim>\<open>
  for city_info in valid_cities_list:
      city_name = city_info["name"]
      country_code = city_info["country"].upper()
      try:
          raw = client.fetch_weather(city_name, country_code)
          record = WeatherRecord(...)
          records.append(record)
          success_count += 1
      except Exception as e:
          logger.error(f"Failed processing {city_name}, {country_code}: {e}")
          failed_cities.append(f"{country_code}.{city_name}")
          failed_cities_count += 1
  \<close>
  \<open>net (name, country) k\<close> is the outcome of the request of attempt \<open>k\<close> for the city.
\<close>

definition process_city ::
  "pydantic \<Rightarrow> OpenWeatherClient \<Rightarrow> (string \<times> string \<Rightarrow> int \<Rightarrow> http_outcome)
     \<Rightarrow> run \<Rightarrow> string \<times> string \<Rightarrow> run" where
  "process_city pyd c net s city_info =
     (let city_name = fst city_info;
          country_code = map upper_char (snd city_info)
      in case (case fst (fetch_weather c (net city_info) city_name country_code) of
                 Inl e \<Rightarrow> Inl e
               | Inr raw \<Rightarrow> build_record pyd c city_name country_code raw) of
           Inr record \<Rightarrow>
             s\<lparr>run_records := run_records s @ [record], success_count := success_count s + 1\<rparr>
         | Inl e \<Rightarrow>
             s\<lparr>failed_cities := failed_cities s @ [country_code @ ''.'' @ city_name],
               failed_cities_count := failed_cities_count s + 1\<rparr>)"

definition ingest ::
  "pydantic \<Rightarrow> OpenWeatherClient \<Rightarrow> (string \<times> string \<Rightarrow> int \<Rightarrow> http_outcome)
     \<Rightarrow> (string \<times> string) list \<Rightarrow> run" where
  "ingest pyd c net valid_cities_list =
     foldl (process_city pyd c net)
       \<lparr>success_count = 0, failed_cities_count = 0, failed_cities = [], run_records = []\<rparr>
       valid_cities_list"

subsection \<open>Example inputs\<close>

text \<open>
  A client, two records of one observation date and country, a storage and a clock, for
  the concrete instances of the theorems below.
\<close>

definition lisbon_client :: OpenWeatherClient where
  "lisbon_client =
     \<lparr>base_url = ''https://api.openweathermap.org/data/2.5/weather'', api_key = ''k'',
      client_units = ''metric'', timeout = 10, max_retries = 3, backoff_seconds = 2\<rparr>"

definition lisbon_record :: WeatherRecord where
  "lisbon_record =
     \<lparr>city = Some ''Lisbon'', country = Some ''PT'',
      timestamp = Some \<lparr>year = 2024, month = 3, day = 5, hour = 10, minute = 0, second = 0\<rparr>,
      timezone_offset = Some 0, weather = Some ''Clear'', weather_description = Some ''clear sky'',
      temperature_min = Some 10, temperature_max = Some 20, temperature_current = Some 15,
      temperature_feels_like = Some 14, cloudiness = Some 0, wind_speed = Some 3,
      wind_direction_deg = Some 90, humidity = Some 50, pressure = Some 1013,
      sunrise = Some \<lparr>year = 2024, month = 3, day = 5, hour = 6, minute = 58, second = 1\<rparr>,
      sunset = Some \<lparr>year = 2024, month = 3, day = 5, hour = 18, minute = 31, second = 2\<rparr>,
      units = Some ''metric''\<rparr>"

definition porto_record :: WeatherRecord where
  "porto_record = lisbon_record\<lparr>city := Some ''Porto'', humidity := None\<rparr>"

definition example_clock :: datetime where
  "example_clock = \<lparr>year = 2024, month = 3, day = 6, hour = 1, minute = 2, second = 3\<rparr>"

definition lisbon_row :: row where
  "lisbon_row =
     [(''City'', CStr ''Lisbon''), (''Country'', CStr ''PT''),
      (''Timestamp'', CStr ''05-03-2024 10:00:00''), (''Timezone'', CStr ''UTC''),
      (''Weather'', CStr ''Clear''), (''Weather_Description'', CStr ''clear sky''),
      (''Cloudiness_(%)'', CInt 0),
      (''Temperature_Current_('' @ degree_sign @ ''C)'', CFloat 15),
      (''Temperature_Min_('' @ degree_sign @ ''C)'', CFloat 10),
      (''Temperature_Max_('' @ degree_sign @ ''C)'', CFloat 20),
      (''Temperature_Feels_Like_('' @ degree_sign @ ''C)'', CFloat 14),
      (''Wind_Speed_(m/s)'', CFloat 3), (''Wind_Direction'', CStr ''East''),
      (''Humidity_(%)'', CInt 50), (''Pressure_(hPa)'', CInt 1013),
      (''Sunrise'', CStr ''05-03-2024 06:58:01''), (''Sunset'', CStr ''05-03-2024 18:31:02'')]"

text \<open>
  Two responses for Lisbon: a complete one, and the same without the observation time
  \<^verbatim>\<open>dt\<close>.
\<close>

definition response_without_dt :: pyval where
  "response_without_dt =
     PDict [(KStr ''timezone'', PInt 0),
            (KStr ''weather'',
               PList [PDict [(KStr ''main'', PStr ''Clear''),
                             (KStr ''description'', PStr ''clear sky'')]]),
            (KStr ''main'',
               PDict [(KStr ''temp'', PInt 15), (KStr ''feels_like'', PInt 14),
                      (KStr ''temp_min'', PInt 10), (KStr ''temp_max'', PInt 20),
                      (KStr ''humidity'', PInt 50), (KStr ''pressure'', PInt 1013)]),
            (KStr ''clouds'', PDict [(KStr ''all'', PInt 0)]),
            (KStr ''wind'', PDict [(KStr ''speed'', PInt 3), (KStr ''deg'', PInt 90)]),
            (KStr ''sys'',
               PDict [(KStr ''sunrise'', PInt 1709621881), (KStr ''sunset'', PInt 1709663462)])]"

definition lisbon_response :: pyval where
  "lisbon_response =
     (case response_without_dt of
        PDict kvs \<Rightarrow> PDict ((KStr ''dt'', PInt 1709632800) # kvs)
      | v \<Rightarrow> v)"

section \<open>Properties\<close>

subsection \<open>The field extractor\<close>

lemma get_field_walk: "get_field d ks dflt = (case walk d ks of None \<Rightarrow> dflt | Some v \<Rightarrow> v)"
proof (induction ks arbitrary: d)
  case Nil
  show ?case by simp
next
  case (Cons k ks)
  show ?case
  proof (cases d)
    case (PDict kvs)
    then show ?thesis using Cons.IH by (simp split: option.splits)
  next
    case (PList xs)
    then show ?thesis using Cons.IH by (cases k) (simp_all split: option.splits)
  qed simp_all
qed

text \<open>
  Claim C5. For every root value, path and default, \<open>get_field\<close> is the walk of the
  specification: it descends one segment at a time through a dictionary that contains the
  key or a list with the key as an in-range index, and returns the default at the first
  segment where neither applies. It is a total function to plain values: no input makes
  it raise. The four examples of the specification evaluate as stated.
\<close>

theorem get_field_is_spec_walk:
  "get_field d path dflt = spec_extract d path dflt
   \<and> get_field (PDict [(KStr ''a'', PDict [(KStr ''b'', PInt 5)])]) [KStr ''a'', KStr ''b''] PNone
       = PInt 5
   \<and> get_field (PDict [(KStr ''a'', PDict [])]) [KStr ''a'', KStr ''b''] (PInt (- 1)) = PInt (- 1)
   \<and> get_field (PDict [(KStr ''a'', PList [PInt 1, PInt 2])]) [KStr ''a'', KInt 1] PNone = PInt 2
   \<and> get_field (PDict [(KStr ''a'', PList [PInt 1])]) [KStr ''a'', KInt 5] PNone = PNone"
  by (simp add: get_field_walk spec_extract_def)

subsection \<open>Display values of the record\<close>






subsection \<open>The fetch client\<close>

lemma retryable_failure_attempt: "retryable_failure out \<Longrightarrow> \<exists>e. attempt_once out = Inl e"
  by (auto simp: retryable_failure_def attempt_once_def split: http_outcome.splits option.splits)

lemma fetch_loop_all_fail:
  assumes "0 \<le> backoff_seconds c"
    and "\<And>k. a \<le> k \<Longrightarrow> k \<le> max_retries c \<Longrightarrow> retryable_failure (net k)"
    and "n = nat (max_retries c + 1 - a)" and "a \<le> max_retries c + 1"
  shows "\<exists>evs. fetch_loop c net q [a..max_retries c]
           = (Inl (RuntimeError (''Failed to fetch data for '' @ q)), evs)
         \<and> attempts evs = n
         \<and> sleeps evs = replicate (n - 1) (backoff_seconds c)
         \<and> (n > 0 \<longrightarrow> \<not> is_sleep (last evs))"
  using assms
proof (induction n arbitrary: a)
  case 0
  then have "[a..max_retries c] = []" by simp
  then show ?case by (simp add: attempts_def)
next
  case (Suc n)
  then have le: "a \<le> max_retries c" by linarith
  have up: "fetch_loop c net q [a..max_retries c] = fetch_loop c net q (a # [a + 1..max_retries c])"
    using le by (subst upto_rec1) simp_all
  obtain e where e: "attempt_once (net a) = Inl e"
    using retryable_failure_attempt Suc.prems(2) le by blast
  have p2: "\<And>k. a + 1 \<le> k \<Longrightarrow> k \<le> max_retries c \<Longrightarrow> retryable_failure (net k)"
    using Suc.prems(2) by simp
  have p3: "n = nat (max_retries c + 1 - (a + 1))" using Suc.prems(3) by linarith
  have p4: "a + 1 \<le> max_retries c + 1" using le by simp
  from Suc.IH [OF Suc.prems(1) p2 p3 p4]
  obtain evs where h: "fetch_loop c net q [a + 1..max_retries c]
           = (Inl (RuntimeError (''Failed to fetch data for '' @ q)), evs)
         \<and> attempts evs = n
         \<and> sleeps evs = replicate (n - 1) (backoff_seconds c)
         \<and> (n > 0 \<longrightarrow> \<not> is_sleep (last evs))" ..
  then have evs: "fetch_loop c net q [a + 1..max_retries c]
           = (Inl (RuntimeError (''Failed to fetch data for '' @ q)), evs)"
         "attempts evs = n"
         "sleeps evs = replicate (n - 1) (backoff_seconds c)"
         "n > 0 \<longrightarrow> \<not> is_sleep (last evs)"
    by simp_all
  show ?case
  proof (cases "a < max_retries c")
    case True
    then have "n > 0" using Suc.prems(3) by linarith
    then have ne: "evs \<noteq> []" using evs(2) by (auto simp: attempts_def)
    have rep: "replicate n (backoff_seconds c) = backoff_seconds c # replicate (n - 1) (backoff_seconds c)"
      using \<open>n > 0\<close> by (cases n) auto
    have "fetch_loop c net q (a # [a + 1..max_retries c]) =
        (Inl (RuntimeError (''Failed to fetch data for '' @ q)),
         HttpGet (base_url c) [(''q'', q), (''appid'', api_key c), (''units'', client_units c)] (timeout c)
         # LogWarning a (max_retries c) q e # Sleep (backoff_seconds c) # evs)"
      using True e evs(1) Suc.prems(1) by (simp add: Let_def)
    then show ?thesis using evs(2,3,4) ne \<open>n > 0\<close> rep
      by (simp add: up attempts_def)
  next
    case False
    then have "a = max_retries c" using le by simp
    then have "n = 0" using Suc.prems(3) by linarith
    have "[a + 1..max_retries c] = []" using \<open>a = max_retries c\<close> by simp
    then have "fetch_loop c net q (a # [a + 1..max_retries c]) =
        (Inl (RuntimeError (''Failed to fetch data for '' @ q)),
         [HttpGet (base_url c) [(''q'', q), (''appid'', api_key c), (''units'', client_units c)] (timeout c),
          LogWarning a (max_retries c) q e])"
      using False e by (simp add: Let_def)
    then show ?thesis using \<open>n = 0\<close>
      by (simp add: up attempts_def)
  qed
qed

text \<open>
  Claim C1, as the specification states it, counts every response with a status outside
  2xx as a failed attempt. The source raises only for 4xx and 5xx: a response with
  status 300 and a JSON body is returned as a success by the first attempt, with no
  warning, no sleep and no terminal error.
\<close>

theorem fetch_weather_non_2xx_counterexample:
  "claimed_failure (Response 300 (Some (PDict [])))
   \<and> fetch_weather lisbon_client (\<lambda>k. Response 300 (Some (PDict []))) ''Lisbon'' ''PT''
       = (Inr (PDict []),
          [HttpGet ''https://api.openweathermap.org/data/2.5/weather''
             [(''q'', ''Lisbon,PT''), (''appid'', ''k''), (''units'', ''metric'')] 10])"
  by (simp add: claimed_failure_def fetch_weather_def lisbon_client_def upto_rec1
      attempt_once_def Let_def)

text \<open>
  Claim C1, amended. For every attempt limit \<open>N \<ge> 1\<close> and backoff duration \<open>\<ge> 0\<close>, if
  every attempt fails (the request raises, the response has a 4xx or 5xx status, or its
  body is not JSON), then \<open>fetch_weather\<close> makes exactly \<open>N\<close> requests, sleeps exactly
  \<open>N - 1\<close> times, each time for the configured backoff, does not sleep after the last
  attempt, and raises the terminal error naming the query \<open>city,country\<close>.
\<close>

theorem fetch_weather_exhausted:
  assumes "1 \<le> max_retries c" and "0 \<le> backoff_seconds c"
    and "\<forall>k. 1 \<le> k \<and> k \<le> max_retries c \<longrightarrow> retryable_failure (net k)"
  shows "fst (fetch_weather c net cty ctry)
           = Inl (RuntimeError (''Failed to fetch data for '' @ cty @ '','' @ ctry))
         \<and> attempts (snd (fetch_weather c net cty ctry)) = nat (max_retries c)
         \<and> sleeps (snd (fetch_weather c net cty ctry))
             = replicate (nat (max_retries c) - 1) (backoff_seconds c)
         \<and> \<not> is_sleep (last (snd (fetch_weather c net cty ctry)))"
proof -
  have n: "nat (max_retries c) = nat (max_retries c + 1 - 1)" by simp
  have f: "\<And>k. 1 \<le> k \<Longrightarrow> k \<le> max_retries c \<Longrightarrow> retryable_failure (net k)"
    using assms(3) by simp
  have le: "1 \<le> max_retries c + 1" using assms(1) by simp
  from fetch_loop_all_fail [OF assms(2) f n le, where q = "cty @ '','' @ ctry"]
  obtain evs where h: "fetch_loop c net (cty @ '','' @ ctry) [1..max_retries c]
           = (Inl (RuntimeError (''Failed to fetch data for '' @ (cty @ '','' @ ctry))), evs)
         \<and> attempts evs = nat (max_retries c)
         \<and> sleeps evs = replicate (nat (max_retries c) - 1) (backoff_seconds c)
         \<and> (nat (max_retries c) > 0 \<longrightarrow> \<not> is_sleep (last evs))" ..
  moreover have "nat (max_retries c) > 0" using assms(1) by simp
  ultimately show ?thesis by (simp add: fetch_weather_def Let_def)
qed

theorem fetch_weather_exhausted_witness:
  "fst (fetch_weather lisbon_client (\<lambda>k. Raises Timeout) ''Lisbon'' ''PT'')
     = Inl (RuntimeError ''Failed to fetch data for Lisbon,PT'')
   \<and> attempts (snd (fetch_weather lisbon_client (\<lambda>k. Raises Timeout) ''Lisbon'' ''PT'')) = 3
   \<and> sleeps (snd (fetch_weather lisbon_client (\<lambda>k. Raises Timeout) ''Lisbon'' ''PT'')) = [2, 2]"
proof -
  have a: "1 \<le> max_retries lisbon_client" and b: "0 \<le> backoff_seconds lisbon_client"
    by (simp_all add: lisbon_client_def)
  have c: "\<forall>k. 1 \<le> k \<and> k \<le> max_retries lisbon_client \<longrightarrow> retryable_failure (Raises Timeout)"
    by (simp add: retryable_failure_def)
  have "nat (max_retries lisbon_client) = 3" "backoff_seconds lisbon_client = 2"
    by (simp_all add: lisbon_client_def)
  then show ?thesis
    using fetch_weather_exhausted [OF a b c, where cty = "''Lisbon''" and ctry = "''PT''"]
    by (simp add: numeral_3_eq_3)
qed

subsection \<open>The writer: records that do not format\<close>

lemma format_all_error:
  "formatted_record x = Inl e0 \<Longrightarrow> \<exists>e. format_all (rs @ x # rs') = Inl e"
  by (induction rs) (auto split: sum.splits)

lemma formatted_record_no_timestamp:
  "formatted_record (r\<lparr>timestamp := None\<rparr>) = Inl AttributeError"
  by (simp add: formatted_record_def format_datetime_def)

lemma lisbon_record_formats: "formatted_record lisbon_record = Inr lisbon_row"
  by code_simp

text \<open>
  Claim C3. A record whose observation timestamp is absent is not excluded silently:
  \<open>formatted_record\<close> raises \<^verbatim>\<open>AttributeError\<close> on it before the frame exists, so
  the write of any batch that holds such a record raises and writes nothing, the valid
  records of the batch included. The first conjunct is the batch of one such record, the
  second any batch, the third a batch of the two example records.
\<close>

theorem write_absent_timestamp_raises:
  "storage_write st now [r\<lparr>timestamp := None\<rparr>] = (Inl AttributeError, [])
   \<and> (\<exists>e. storage_write st now (rs @ r\<lparr>timestamp := None\<rparr> # rs') = (Inl e, []))
   \<and> storage_write (Storage_init ''data/raw'' ''csv'' ''date'') example_clock
         [lisbon_record, porto_record\<lparr>timestamp := None\<rparr>] = (Inl AttributeError, [])"
proof -
  have a: "storage_write st now [r\<lparr>timestamp := None\<rparr>] = (Inl AttributeError, [])"
    by (simp add: storage_write_def formatted_record_no_timestamp)
  obtain e where "format_all (rs @ r\<lparr>timestamp := None\<rparr> # rs') = Inl e"
    using format_all_error [OF formatted_record_no_timestamp] ..
  then have b: "\<exists>e. storage_write st now (rs @ r\<lparr>timestamp := None\<rparr> # rs') = (Inl e, [])"
    by (simp add: storage_write_def)
  have "\<exists>x. formatted_record lisbon_record = Inr x"
    by (simp add: formatted_record_def lisbon_record_def format_datetime_def timezone_str_def
        wind_direction_compass_def)
  then have c: "storage_write (Storage_init ''data/raw'' ''csv'' ''date'') example_clock
         [lisbon_record, porto_record\<lparr>timestamp := None\<rparr>] = (Inl AttributeError, [])"
    by (auto simp: storage_write_def formatted_record_no_timestamp)
  from a b c show ?thesis by simp
qed


text \<open>
  Claim C6. A record whose timezone offset, wind direction, sunrise or sunset is absent
  does not reach the output with a blank cell: \<open>formatted_record\<close> raises
  \<^verbatim>\<open>TypeError\<close> or \<^verbatim>\<open>AttributeError\<close> on it, and the write of the batch raises
  and writes nothing. The last conjunct is a batch of the two example records.
\<close>

theorem write_absent_display_field_raises:
  "formatted_record (r\<lparr>timestamp := Some t, timezone_offset := None\<rparr>) = Inl TypeError
   \<and> storage_write st now [r\<lparr>timestamp := Some t, timezone_offset := None\<rparr>] = (Inl TypeError, [])
   \<and> storage_write st now
         [r\<lparr>timestamp := Some t, timezone_offset := Some off, wind_direction_deg := None\<rparr>]
       = (Inl TypeError, [])
   \<and> storage_write st now
         [r\<lparr>timestamp := Some t, timezone_offset := Some off, wind_direction_deg := Some deg,
            sunrise := None\<rparr>]
       = (Inl AttributeError, [])
   \<and> storage_write (Storage_init ''data/raw'' ''csv'' ''date'') example_clock
         [lisbon_record, porto_record\<lparr>timezone_offset := None\<rparr>] = (Inl TypeError, [])"
proof -
  have a: "formatted_record (r\<lparr>timestamp := Some t, timezone_offset := None\<rparr>) = Inl TypeError"
    by (simp add: formatted_record_def format_datetime_def timezone_str_def)
  have b: "formatted_record
        (r\<lparr>timestamp := Some t, timezone_offset := Some off, wind_direction_deg := None\<rparr>)
      = Inl TypeError"
    by (simp add: formatted_record_def format_datetime_def timezone_str_def Let_def
        wind_direction_compass_def)
  have c: "formatted_record
        (r\<lparr>timestamp := Some t, timezone_offset := Some off, wind_direction_deg := Some deg,
           sunrise := None\<rparr>)
      = Inl AttributeError"
    by (simp add: formatted_record_def format_datetime_def timezone_str_def Let_def
        wind_direction_compass_def)
  have d: "formatted_record (porto_record\<lparr>timezone_offset := None\<rparr>) = Inl TypeError"
    by (simp add: porto_record_def lisbon_record_def formatted_record_def format_datetime_def
        timezone_str_def)
  have e: "storage_write (Storage_init ''data/raw'' ''csv'' ''date'') example_clock
         [lisbon_record, porto_record\<lparr>timezone_offset := None\<rparr>] = (Inl TypeError, [])"
    by (simp add: storage_write_def lisbon_record_formats d)
  show ?thesis
    using a b c e by (simp add: storage_write_def)
qed

subsection \<open>The writer: unsupported tags\<close>

lemma layout_groups_None: "layout_groups st run_ts df = None \<longleftrightarrow> \<not> supported_layout st"
  by (simp add: layout_groups_def supported_layout_def)

lemma write_groups_unsupported_format:
  "\<not> supported_format st \<Longrightarrow>
   write_groups st groups =
     (if groups = [] then (Inr (), [])
      else (Inl (ValueError (''Unsupported format: '' @ fmt st)),
            [Mkdir (joinpath (base_path st) (fst (hd groups)))]))"
  by (cases groups) (auto simp: save_def supported_format_def Let_def)

text \<open>
  Claim C4, as the specification states it, has every write with an unsupported tag raise
  before any directory is created, the empty batch included. On the empty batch the
  source returns before it reads a tag, and on an unsupported format it creates the
  directory of the first group before \<^verbatim>\<open>_save\<close> raises.
\<close>

theorem write_config_error_counterexample:
  "\<not> supported_format (Storage_init ''data/raw'' ''xml'' ''by_planet'')
   \<and> \<not> supported_layout (Storage_init ''data/raw'' ''xml'' ''by_planet'')
   \<and> storage_write (Storage_init ''data/raw'' ''xml'' ''by_planet'') example_clock [] = (Inr (), [])
   \<and> storage_write (Storage_init ''data/raw'' ''xml'' ''date'') example_clock [lisbon_record]
       = (Inl (ValueError ''Unsupported format: xml''),
          [Mkdir (False, [''data'', ''raw'', ''year=2024'', ''month=3'', ''day=5''])])"
  by code_simp

text \<open>
  Claim C4, amended. For every non-empty batch whose records all format: an unsupported
  layout tag raises the configuration error with no directory created and no file
  written; an unsupported format tag, under a supported layout, raises the configuration
  error at the first group, with no file written and the directory of that group
  created, and raises nothing when there is no group. On the empty batch the write
  returns with no error and no effect.
\<close>

theorem write_config_error:
  assumes "records \<noteq> []" and "format_all records = Inr data"
  shows "(\<not> supported_layout st \<longrightarrow>
            storage_write st now records
              = (Inl (ValueError (''Unsupported layout: '' @ layout st)), []))
         \<and> (\<not> supported_format st \<longrightarrow>
              (\<forall>groups. layout_groups st (strftime_run now) (with_ts data) = Some groups \<longrightarrow>
                 storage_write st now records =
                   (if groups = [] then (Inr (), [])
                    else (Inl (ValueError (''Unsupported format: '' @ fmt st)),
                          [Mkdir (joinpath (base_path st) (fst (hd groups)))]))))
         \<and> storage_write st now [] = (Inr (), [])"
proof (intro conjI impI allI)
  assume "\<not> supported_layout st"
  then have "layout_groups st (strftime_run now) (with_ts data) = None"
    by (simp add: layout_groups_None)
  then show "storage_write st now records
      = (Inl (ValueError (''Unsupported layout: '' @ layout st)), [])"
    using assms by (simp add: storage_write_def Let_def)
next
  fix groups
  assume "\<not> supported_format st"
    and "layout_groups st (strftime_run now) (with_ts data) = Some groups"
  then show "storage_write st now records =
      (if groups = [] then (Inr (), [])
       else (Inl (ValueError (''Unsupported format: '' @ fmt st)),
             [Mkdir (joinpath (base_path st) (fst (hd groups)))]))"
    using assms by (simp add: storage_write_def Let_def write_groups_unsupported_format)
next
  show "storage_write st now [] = (Inr (), [])"
    by (simp add: storage_write_def)
qed

theorem write_config_error_witness:
  "storage_write (Storage_init ''data/raw'' ''csv'' ''by_planet'') example_clock [lisbon_record]
     = (Inl (ValueError ''Unsupported layout: by_planet''), [])
   \<and> storage_write (Storage_init ''data/raw'' ''xml'' ''date'') example_clock [lisbon_record]
       = (Inl (ValueError ''Unsupported format: xml''),
          [Mkdir (False, [''data'', ''raw'', ''year=2024'', ''month=3'', ''day=5''])])"
proof -
  have d: "format_all [lisbon_record] = Inr [lisbon_row]"
    by (simp add: lisbon_record_formats)
  have ne: "[lisbon_record] \<noteq> []" by simp
  have l: "\<not> supported_layout (Storage_init ''data/raw'' ''csv'' ''by_planet'')"
    by code_simp
  have f: "\<not> supported_format (Storage_init ''data/raw'' ''xml'' ''date'')"
    by code_simp
  have g: "layout_groups (Storage_init ''data/raw'' ''xml'' ''date'') (strftime_run example_clock)
        (with_ts [lisbon_row])
      = Some [(''year=2024/month=3/day=5'', ''weather_20240306_010203.xml'', [lisbon_row])]"
    by code_simp
  have n: "layout (Storage_init ''data/raw'' ''csv'' ''by_planet'') = ''by_planet''"
    "fmt (Storage_init ''data/raw'' ''xml'' ''date'') = ''xml''"
    "joinpath (base_path (Storage_init ''data/raw'' ''xml'' ''date'')) ''year=2024/month=3/day=5''
       = (False, [''data'', ''raw'', ''year=2024'', ''month=3'', ''day=5''])"
    by code_simp+
  show ?thesis
    using write_config_error [OF ne d, of "Storage_init ''data/raw'' ''csv'' ''by_planet''" example_clock]
      write_config_error [OF ne d, of "Storage_init ''data/raw'' ''xml'' ''date''" example_clock]
      l f g n
    by simp
qed

subsection \<open>The ingestion loop\<close>

lemma fetch_weather_first_success:
  assumes "1 \<le> max_retries c" and "net 1 = Response status (Some raw)"
    and "\<not> (400 \<le> status \<and> status < 600)"
  shows "fetch_weather c net cty ctry
           = (Inr raw,
              [HttpGet (base_url c)
                 [(''q'', cty @ '','' @ ctry), (''appid'', api_key c), (''units'', client_units c)]
                 (timeout c)])"
proof -
  have "fetch_loop c net (cty @ '','' @ ctry) [1..max_retries c]
      = fetch_loop c net (cty @ '','' @ ctry) (1 # [1 + 1..max_retries c])"
    using assms(1) by (subst upto_rec1) simp_all
  then show ?thesis
    using assms(2,3) by (simp add: fetch_weather_def Let_def attempt_once_def)
qed

lemma build_record_without_dt:
  "get_field raw [KStr ''dt''] PNone = PNone \<Longrightarrow> build_record pyd c nm cc raw = Inl TypeError"
  by (simp add: build_record_def and_then_def fromtimestamp_def)

text \<open>
  Claim C7. A city is not counted as failed only when its fetch is exhausted: when the
  first attempt succeeds with status 200 and the response has no observation time
  \<^verbatim>\<open>dt\<close>, the fetch returns the response, \<^verbatim>\<open>datetime.fromtimestamp(None)\<close> raises
  \<^verbatim>\<open>TypeError\<close> inside the \<^verbatim>\<open>try\<close> block, and the handler of
  \<^verbatim>\<open>except Exception\<close> lists the city as failed and counts it, whatever the
  validation of the other fields does.
\<close>

theorem missing_dt_counts_city_failed:
  assumes "1 \<le> max_retries c" and "net city_info 1 = Response 200 (Some raw)"
    and "get_field raw [KStr ''dt''] PNone = PNone"
  shows "fst (fetch_weather c (net city_info) (fst city_info) (map upper_char (snd city_info)))
           = Inr raw
         \<and> process_city pyd c net s city_info
             = s\<lparr>failed_cities :=
                    failed_cities s @ [map upper_char (snd city_info) @ ''.'' @ fst city_info],
                  failed_cities_count := failed_cities_count s + 1\<rparr>"
proof -
  have f: "fetch_weather c (net city_info) (fst city_info) (map upper_char (snd city_info))
      = (Inr raw,
         [HttpGet (base_url c)
            [(''q'', fst city_info @ '','' @ map upper_char (snd city_info)),
             (''appid'', api_key c), (''units'', client_units c)]
            (timeout c)])"
  proof (rule fetch_weather_first_success [where net = "net city_info" and status = 200, OF assms(1,2)])
    show "\<not> (400 \<le> (200::int) \<and> (200::int) < 600)" by simp
  qed
  then show ?thesis
    using build_record_without_dt [OF assms(3)] by (simp add: process_city_def Let_def)
qed

lemma upper_pt: "upper_char CHR ''p'' = CHR ''P''" "upper_char CHR ''t'' = CHR ''T''"
  by code_simp+

theorem missing_dt_counts_city_failed_witness:
  "fst (fetch_weather lisbon_client (\<lambda>k. Response 200 (Some response_without_dt)) ''Lisbon'' ''PT'')
     = Inr response_without_dt
   \<and> ingest typed_pydantic lisbon_client (\<lambda>ci k. Response 200 (Some response_without_dt))
         [(''Lisbon'', ''pt'')]
       = \<lparr>success_count = 0, failed_cities_count = 1, failed_cities = [''PT.Lisbon''],
          run_records = []\<rparr>"
proof -
  have a: "1 \<le> max_retries lisbon_client" by (simp add: lisbon_client_def)
  have b: "(\<lambda>ci k. Response 200 (Some response_without_dt)) (''Lisbon'', ''pt'') 1
      = Response 200 (Some response_without_dt)" by simp
  have c: "get_field response_without_dt [KStr ''dt''] PNone = PNone"
    by (simp add: response_without_dt_def)
  show ?thesis
    using missing_dt_counts_city_failed [where net = "\<lambda>ci k. Response 200 (Some response_without_dt)"
        and city_info = "(''Lisbon'', ''pt'')" and c = lisbon_client and raw = response_without_dt,
        OF a b c, where pyd = typed_pydantic
        and s = "\<lparr>success_count = 0, failed_cities_count = 0, failed_cities = [], run_records = []\<rparr>"]
    by (simp add: ingest_def upper_pt)
qed

end
